theory Spec2Isabelle
  imports Main
begin

section \<open>geoip2-tools: the database manager of \<^verbatim>\<open>geoip2_tools/database.py\<close>\<close>

text \<open>
  The module is one class, \<^verbatim>\<open>Geoip2DataBase\<close>, whose methods talk to the file system,
  to an HTTP endpoint, to \<^verbatim>\<open>portalocker\<close>, to \<^verbatim>\<open>tarfile\<close> and to the MaxMind reader.
  The embedding keeps the methods as they are written and makes the collaborators
  explicit: a \<open>world\<close> record holds the POSIX file tree, the answer of the download
  endpoint and a log of the outward calls; every method takes the world and returns
  the new one, and every exception is a value of \<open>error\<close>. One process runs; other
  processes show only as locks they hold. The libraries are modelled by their
  documented behaviour on POSIX: \<^verbatim>\<open>posixpath\<close>, \<^verbatim>\<open>os\<close>, \<^verbatim>\<open>portalocker\<close>, \<^verbatim>\<open>requests\<close>,
  \<^verbatim>\<open>tarfile\<close>.
\<close>

subsection \<open>Strings\<close>

text \<open>Python \<^verbatim>\<open>str\<close> and \<^verbatim>\<open>bytes\<close> are both lists of 8-bit characters here (paths and
  names in their encoded form; the tests on them only look at ASCII characters).\<close>

type_synonym bytes = "char list"

definition startswith :: "string \<Rightarrow> string \<Rightarrow> bool" where
  "startswith s p = (take (length p) s = p)"

definition endswith :: "string \<Rightarrow> string \<Rightarrow> bool" where
  "endswith s x = (length x \<le> length s \<and> drop (length s - length x) s = x)"

text \<open>\<^verbatim>\<open>s.split(sep)\<close> for a one-character separator: never empty, \<open>n\<close> separators give
  \<open>n + 1\<close> pieces.\<close>

fun split_sep :: "char \<Rightarrow> string \<Rightarrow> string list" where
  "split_sep c [] = [[]]"
| "split_sep c (x # xs) =
     (if x = c then [] # split_sep c xs
      else (case split_sep c xs of
              [] \<Rightarrow> [[x]]
            | y # ys \<Rightarrow> (x # y) # ys))"

text \<open>\<^verbatim>\<open>os.path.join(a, b)\<close> of \<^verbatim>\<open>posixpath\<close>, for two arguments: an absolute second
  component replaces the first; otherwise one separator is put between them unless
  the first is empty or already ends with one.\<close>

definition os_path_join :: "string \<Rightarrow> string \<Rightarrow> string" where
  "os_path_join a b =
     (if startswith b ''/'' then b
      else if a = [] \<or> endswith a ''/'' then a @ b
      else a @ ''/'' @ b)"

text \<open>\<^verbatim>\<open>d.get(k, default)\<close> on a dictionary written as an association list.\<close>

definition dict_get :: "('k \<times> 'v) list \<Rightarrow> 'k \<Rightarrow> 'v \<Rightarrow> 'v" where
  "dict_get d k dflt = (case map_of d k of Some v \<Rightarrow> v | None \<Rightarrow> dflt)"

text \<open>Truthiness of an optional string, and \<^verbatim>\<open>x or y\<close> on optional strings: \<^verbatim>\<open>None\<close>
  and the empty string are falsy.\<close>

definition truthy :: "string option \<Rightarrow> bool" where
  "truthy x = (case x of None \<Rightarrow> False | Some s \<Rightarrow> s \<noteq> [])"

definition py_or :: "string option \<Rightarrow> string option \<Rightarrow> string option" where
  "py_or x y = (if truthy x then x else y)"

text \<open>The same with a second operand that is always a string.\<close>

definition str_or :: "string option \<Rightarrow> string \<Rightarrow> string" where
  "str_or x d = (case x of None \<Rightarrow> d | Some s \<Rightarrow> if s \<noteq> [] then s else d)"

subsection \<open>Errors\<close>

text \<open>One constructor per exception class the module can let escape. \<open>OSError\<close> stands
  for the whole family raised by the file system (\<^verbatim>\<open>FileNotFoundError\<close>,
  \<^verbatim>\<open>NotADirectoryError\<close>, \<^verbatim>\<open>IsADirectoryError\<close>, \<^verbatim>\<open>FileExistsError\<close>): Python's I/O
  error. \<open>RequestException\<close> is the family of \<^verbatim>\<open>requests\<close>, \<open>ReadError\<close> is
  \<^verbatim>\<open>tarfile.ReadError\<close>, \<open>StopIteration\<close> is what \<^verbatim>\<open>next\<close> raises on an exhausted
  iterator.\<close>

datatype error =
    AssertionError string
  | DatabaseNotExists string
  | OSError
  | LockException
  | RequestException
  | ReadError
  | StopIteration
  | ExtractError
  | InvalidDatabaseError

subsection \<open>Module constants and the process environment\<close>

definition DATABASE_ALIASES :: "(string \<times> string) list" where
  "DATABASE_ALIASES =
     [(''asn'', ''GeoLite2-ASN''),
      (''country'', ''GeoLite2-Country''),
      (''city'', ''GeoLite2-City'')]"

definition GEOIP2_DOWNLOAD_URL :: string where
  "GEOIP2_DOWNLOAD_URL = ''https://download.maxmind.com/app/geoip_download''"

definition GEOIP2_MAXMIND_LICENSE_KEY_ENVNAME :: string where
  "GEOIP2_MAXMIND_LICENSE_KEY_ENVNAME = ''GEOIP2_MAXMIND_LICENSE_KEY''"

definition DOWNLOAD_CHUNK_SIZE :: nat where
  "DOWNLOAD_CHUNK_SIZE = 1024 * 4"

text \<open>What the process sees of its environment: \<^verbatim>\<open>os.environ\<close>, and the value of
  \<^verbatim>\<open>os.path.expanduser('~/.config/geoip2-tools/')\<close> (it depends on the user's home).\<close>

record process_env =
  environ :: "string \<rightharpoonup> string"
  DEFAULT_GEOIP2_TOOLS_DIRECTORY :: string

definition GEOIP2_TOOLS_DIRECTORY :: "process_env \<Rightarrow> string" where
  "GEOIP2_TOOLS_DIRECTORY env =
     (case environ env ''GEOIP2_TOOLS_DIRECTORY'' of
        Some d \<Rightarrow> d
      | None \<Rightarrow> DEFAULT_GEOIP2_TOOLS_DIRECTORY env)"

subsection \<open>The file system\<close>

text \<open>A POSIX file tree without symbolic links, in which the process may read and write
  everything and space never runs out. A location is the list of names from the root;
  the root itself is always a directory. A path string is resolved as the kernel does
  it, component by component: every component is looked up in a location that must
  be an existing directory.\<close>

datatype node = File bytes | Dir

type_synonym loc = "string list"

type_synonym tree = "loc \<rightharpoonup> node"

definition node_at :: "tree \<Rightarrow> loc \<Rightarrow> node option" where
  "node_at t l = (if l = [] then Some Dir else t l)"

definition is_dir_at :: "tree \<Rightarrow> loc \<Rightarrow> bool" where
  "is_dir_at t l = (node_at t l = Some Dir)"

definition step :: "tree \<Rightarrow> loc option \<Rightarrow> string \<Rightarrow> loc option" where
  "step t cur c =
     (case cur of
        None \<Rightarrow> None
      | Some l \<Rightarrow>
          if \<not> is_dir_at t l then None
          else if c = [] \<or> c = ''.'' then Some l
          else if c = ''..'' then Some (butlast l)
          else Some (l @ [c]))"

definition start_of :: "loc \<Rightarrow> string \<Rightarrow> loc" where
  "start_of wd p = (if startswith p ''/'' then [] else wd)"

definition walk :: "tree \<Rightarrow> loc \<Rightarrow> string \<Rightarrow> loc option" where
  "walk t wd p =
     (if p = [] then None
      else foldl (step t) (Some (start_of wd p)) (split_sep CHR ''/'' p))"

subsection \<open>The world\<close>

text \<open>The answer of the download endpoint to one request: no connection, or a response
  whose body arrives as a list of chunks (what \<^verbatim>\<open>iter_content\<close> yields when asked for
  chunks of \<open>DOWNLOAD_CHUNK_SIZE\<close> bytes; some may be empty), after which the stream
  may break (the flag). The status code is not part of it: the source never reads it.\<close>

datatype http_outcome = ConnectionFailed | Response "bytes list" bool

datatype event =
    HttpGet string "(string \<times> string) list"
  | MakeDirs string
  | Write loc bytes
  | OpenReader string

record world =
  fs :: tree
  cwd :: loc
  dir_st_size :: nat
  locked_elsewhere :: "loc set"
  server :: "string \<Rightarrow> (string \<times> string) list \<Rightarrow> http_outcome"
  events :: "event list"
  next_reader_id :: nat

text \<open>\<open>dir_st_size\<close> is the size \<^verbatim>\<open>stat\<close> reports for a directory; \<open>locked_elsewhere\<close> are
  the files on which another process holds the advisory lock; \<open>events\<close> logs the
  outward calls in order; \<open>next_reader_id\<close> is the identity of the next reader object.\<close>

definition log :: "event \<Rightarrow> world \<Rightarrow> world" where
  "log e w = w\<lparr>events := events w @ [e]\<rparr>"

definition stat :: "world \<Rightarrow> string \<Rightarrow> (loc \<times> node) option" where
  "stat w p =
     (case walk (fs w) (cwd w) p of
        None \<Rightarrow> None
      | Some l \<Rightarrow> (case node_at (fs w) l of None \<Rightarrow> None | Some n \<Rightarrow> Some (l, n)))"

text \<open>\<^verbatim>\<open>os.path.lexists\<close>, \<^verbatim>\<open>os.path.isdir\<close>, \<^verbatim>\<open>os.path.getsize\<close>.\<close>

definition lexists :: "world \<Rightarrow> string \<Rightarrow> bool" where
  "lexists w p = (stat w p \<noteq> None)"

definition isdir :: "world \<Rightarrow> string \<Rightarrow> bool" where
  "isdir w p = (case stat w p of Some (l, Dir) \<Rightarrow> True | _ \<Rightarrow> False)"

definition getsize :: "world \<Rightarrow> string \<Rightarrow> error + nat" where
  "getsize w p =
     (case stat w p of
        None \<Rightarrow> Inl OSError
      | Some (l, File b) \<Rightarrow> Inr (length b)
      | Some (l, Dir) \<Rightarrow> Inr (dir_st_size w))"

definition read_file :: "world \<Rightarrow> string \<Rightarrow> bytes option" where
  "read_file w p = (case stat w p of Some (l, File b) \<Rightarrow> Some b | _ \<Rightarrow> None)"

text \<open>\<^verbatim>\<open>open(p, 'ab')\<close>: the file is created empty when it is absent and its parent is a
  directory; an existing file is opened as it is. The handle is the file's location.\<close>

definition open_append :: "world \<Rightarrow> string \<Rightarrow> (error + loc) \<times> world" where
  "open_append w p =
     (case walk (fs w) (cwd w) p of
        None \<Rightarrow> (Inl OSError, w)
      | Some l \<Rightarrow>
          (case node_at (fs w) l of
             Some Dir \<Rightarrow> (Inl OSError, w)
           | Some (File b) \<Rightarrow> (Inr l, w)
           | None \<Rightarrow>
               if is_dir_at (fs w) (butlast l)
               then (Inr l, w\<lparr>fs := (fs w)(l \<mapsto> File [])\<rparr>)
               else (Inl OSError, w)))"

definition contents :: "world \<Rightarrow> loc \<Rightarrow> bytes" where
  "contents w fh = (case fs w fh of Some (File b) \<Rightarrow> b | _ \<Rightarrow> [])"

text \<open>\<^verbatim>\<open>fh.seek(0); fh.truncate(0)\<close> and \<^verbatim>\<open>fh.write(b)\<close> on a handle opened for appending.
  The handle buffers: written bytes reach the file when it is flushed or closed, at
  the latest when the block that opened it is left. The worlds the methods return are
  the worlds after that, so the write is applied at once.\<close>

definition ftruncate :: "world \<Rightarrow> loc \<Rightarrow> world" where
  "ftruncate w fh = w\<lparr>fs := (fs w)(fh \<mapsto> File [])\<rparr>"

definition fwrite :: "world \<Rightarrow> loc \<Rightarrow> bytes \<Rightarrow> world" where
  "fwrite w fh b = log (Write fh b) (w\<lparr>fs := (fs w)(fh \<mapsto> File (contents w fh @ b))\<rparr>)"

text \<open>\<^verbatim>\<open>os.makedirs(p, exist_ok=True)\<close>: every missing directory along the path is
  created; a regular file in the way is an error. Directories created before the
  error stay.\<close>

fun mkdir_p :: "tree \<Rightarrow> loc \<Rightarrow> string list \<Rightarrow> tree \<times> bool" where
  "mkdir_p t cur [] = (t, is_dir_at t cur)"
| "mkdir_p t cur (c # cs) =
     (if \<not> is_dir_at t cur then (t, False)
      else if c = [] \<or> c = ''.'' then mkdir_p t cur cs
      else if c = ''..'' then mkdir_p t (butlast cur) cs
      else (case node_at t (cur @ [c]) of
              None \<Rightarrow> mkdir_p (t(cur @ [c] \<mapsto> Dir)) (cur @ [c]) cs
            | Some n \<Rightarrow> mkdir_p t (cur @ [c]) cs))"

definition makedirs :: "world \<Rightarrow> string \<Rightarrow> (error + unit) \<times> world" where
  "makedirs w p =
     (if p = [] then (Inl OSError, log (MakeDirs p) w)
      else (case mkdir_p (fs w) (start_of (cwd w) p) (split_sep CHR ''/'' p) of
              (t, ok) \<Rightarrow>
                (if ok then Inr () else Inl OSError, log (MakeDirs p) (w\<lparr>fs := t\<rparr>))))"

subsection \<open>portalocker\<close>

text \<open>\<^verbatim>\<open>portalocker.Lock(filename, mode)\<close> entered as a context manager, for the writing
  modes. A \<^verbatim>\<open>w\<close> in the mode is replaced by \<^verbatim>\<open>a\<close> and remembered as \<open>truncate\<close>; the
  file is opened with the resulting mode (created when absent); the exclusive lock is
  tried without blocking, again and again until the timeout; once it is held the
  file is truncated to no bytes when \<open>truncate\<close> is set. A lock that another process
  keeps holding ends in \<open>LockException\<close>, with the file opened but not truncated.
  The value bound by \<^verbatim>\<open>as\<close> is the open file handle. Leaving the block unlocks and
  closes the handle, which changes nothing in this world of one running process.\<close>

definition Lock_enter :: "world \<Rightarrow> string \<Rightarrow> string \<Rightarrow> (error + loc) \<times> world" where
  "Lock_enter w filename mode =
     (let truncate = (CHR ''w'' \<in> set mode) in
      case open_append w filename of
        (Inl e, w1) \<Rightarrow> (Inl e, w1)
      | (Inr fh, w1) \<Rightarrow>
          if fh \<in> locked_elsewhere w1 then (Inl LockException, w1)
          else (Inr fh, if truncate then ftruncate w1 fh else w1))"

subsection \<open>requests, tarfile and the reader library\<close>

definition requests_get ::
  "world \<Rightarrow> string \<Rightarrow> (string \<times> string) list \<Rightarrow> (error + bytes list \<times> bool) \<times> world" where
  "requests_get w url params =
     (case server w url params of
        ConnectionFailed \<Rightarrow> (Inl RequestException, log (HttpGet url params) w)
      | Response chunks broken \<Rightarrow> (Inr (chunks, broken), log (HttpGet url params) w))"

text \<open>The loop over \<^verbatim>\<open>r.iter_content\<close>: every non-empty chunk is appended to the
  temporary file, whose content is the first argument.\<close>

fun write_chunks :: "bytes \<Rightarrow> bytes list \<Rightarrow> bytes" where
  "write_chunks t [] = t"
| "write_chunks t (chunk # rest) = write_chunks (if chunk \<noteq> [] then t @ chunk else t) rest"

text \<open>An open \<^verbatim>\<open>TarFile\<close>, as far as the module uses one: the member names in archive
  order (\<^verbatim>\<open>getnames()\<close>), and the bytes of the member a name stands for (\<^verbatim>\<open>None\<close> when
  the name stands for no regular file). \<^verbatim>\<open>download\<close> hands the member over by its
  name, so which member is extracted is what the library resolves the name to; in an
  archive whose names are all different that is the member in whose place the name
  stands. The decoders of the two binary formats are parameters.\<close>

record archive =
  getnames :: "string list"
  extractfile :: "string \<Rightarrow> bytes option"

record libs =
  tarfile_open :: "bytes \<Rightarrow> archive option"
  maxmind_valid :: "bytes \<Rightarrow> bool"

text \<open>\<^verbatim>\<open>next(filter(pred, xs))\<close>: the first element that satisfies the predicate, or
  \<open>StopIteration\<close>.\<close>

definition next_filter :: "('a \<Rightarrow> bool) \<Rightarrow> 'a list \<Rightarrow> error + 'a" where
  "next_filter pred xs = (case List.find pred xs of None \<Rightarrow> Inl StopIteration | Some x \<Rightarrow> Inr x)"

text \<open>Modelled from the spec: \<^verbatim>\<open>extract_file_to\<close> of \<^verbatim>\<open>geoip2_tools.utils\<close>, which is not
  among the sources. The spec: ``Extract exactly that member's byte content and write
  it into the already-open, lock-held file handle''. A name that stands for no
  regular file is an error.\<close>

definition extract_file_to :: "world \<Rightarrow> archive \<Rightarrow> string \<Rightarrow> loc \<Rightarrow> (error + unit) \<times> world" where
  "extract_file_to w tar member_path fh =
     (case extractfile tar member_path of
        None \<Rightarrow> (Inl ExtractError, w)
      | Some b \<Rightarrow> (Inr (), fwrite w fh b))"

text \<open>A \<^verbatim>\<open>geoip2.database.Reader\<close> object: its identity, the path it was opened on and the
  bytes it loaded. Opening fails on a path that is no regular file and on content
  the format decoder rejects.\<close>

record Reader =
  reader_id :: nat
  reader_path :: string
  reader_data :: bytes

definition Reader_open :: "libs \<Rightarrow> world \<Rightarrow> string \<Rightarrow> (error + Reader) \<times> world" where
  "Reader_open L w p =
     (case stat w p of
        Some (l, File b) \<Rightarrow>
          if maxmind_valid L b
          then (Inr \<lparr>reader_id = next_reader_id w, reader_path = p, reader_data = b\<rparr>,
                log (OpenReader p) (w\<lparr>next_reader_id := Suc (next_reader_id w)\<rparr>))
          else (Inl InvalidDatabaseError, log (OpenReader p) w)
      | _ \<Rightarrow> (Inl OSError, log (OpenReader p) w))"

subsection \<open>class Geoip2DataBase\<close>

text \<open>The instance: \<open>priv_reader\<close> and \<open>priv_path\<close> are the attributes \<^verbatim>\<open>_reader\<close> and
  \<^verbatim>\<open>_path\<close>. A \<^verbatim>\<open>Reader\<close> object is truthy, so \<^verbatim>\<open>not self._reader\<close> is
  \<open>priv_reader m = None\<close>. The constructor's \<^verbatim>\<open>assert\<close> is executed (the interpreter
  does not run with assertions switched off); when it fails no instance comes into
  being, when it passes the credential is a string.\<close>

record Geoip2DataBase =
  edition_id :: string
  directory :: string
  license_key :: string
  priv_reader :: "Reader option"
  priv_path :: "string option"

definition init ::
  "process_env \<Rightarrow> string \<Rightarrow> string option \<Rightarrow> string option \<Rightarrow> error + Geoip2DataBase" where
  "init env edition dir_arg key_arg =
     (let e = dict_get DATABASE_ALIASES edition edition;
          d = str_or dir_arg (GEOIP2_TOOLS_DIRECTORY env);
          k = py_or key_arg (environ env GEOIP2_MAXMIND_LICENSE_KEY_ENVNAME)
      in case k of
           None \<Rightarrow> Inl (AssertionError ''A MaxMind license is required.'')
         | Some key \<Rightarrow>
             Inr \<lparr>edition_id = e, directory = d, license_key = key,
                  priv_reader = None, priv_path = None\<rparr>)"

definition path :: "Geoip2DataBase \<Rightarrow> string" where
  "path m = os_path_join (directory m) (edition_id m @ ''.mmdb'')"

definition exists :: "Geoip2DataBase \<Rightarrow> world \<Rightarrow> bool" where
  "exists m w = lexists w (path m)"

definition download_params :: "Geoip2DataBase \<Rightarrow> (string \<times> string) list" where
  "download_params m =
     [(''edition_id'', edition_id m),
      (''license_key'', license_key m),
      (''suffix'', ''tar.gz'')]"

text \<open>The body of the \<^verbatim>\<open>with portalocker.Lock(...) as l\<close> block of \<^verbatim>\<open>download\<close>, in the
  order of the source: the size check, the request, the directory, the temporary
  file, the archive, the member, the extraction. The temporary file is private to
  the call and removed when its block is left, so it is a value here, the bytes
  \<open>write_chunks [] chunks\<close>; a stream that breaks does so while the chunks are read,
  after the directory step. Every exception leaves both blocks, so the result of the
  body is the result of \<^verbatim>\<open>download\<close>.\<close>

definition download_locked ::
  "libs \<Rightarrow> Geoip2DataBase \<Rightarrow> loc \<Rightarrow> world \<Rightarrow> (error + unit) \<times> world" where
  "download_locked L m l w =
     (case getsize w (path m) of
        Inl e \<Rightarrow> (Inl e, w)
      | Inr n \<Rightarrow>
          if n \<noteq> 0 then (Inr (), w)
          else
            (case requests_get w GEOIP2_DOWNLOAD_URL (download_params m) of
               (Inl e, w1) \<Rightarrow> (Inl e, w1)
             | (Inr (chunks, broken), w1) \<Rightarrow>
                 (case (if directory m \<noteq> [] then makedirs w1 (directory m) else (Inr (), w1)) of
                    (Inl e, w2) \<Rightarrow> (Inl e, w2)
                  | (Inr u, w2) \<Rightarrow>
                      if broken then (Inl RequestException, w2)
                      else
                        (case tarfile_open L (write_chunks [] chunks) of
                           None \<Rightarrow> (Inl ReadError, w2)
                         | Some tar \<Rightarrow>
                             (case next_filter (\<lambda>x. endswith x ''.mmdb'') (getnames tar) of
                                Inl e \<Rightarrow> (Inl e, w2)
                              | Inr member_path \<Rightarrow> extract_file_to w2 tar member_path l)))))"

definition download :: "libs \<Rightarrow> Geoip2DataBase \<Rightarrow> world \<Rightarrow> (error + unit) \<times> world" where
  "download L m w =
     (case Lock_enter w (path m) ''wb'' of
        (Inl e, w1) \<Rightarrow> (Inl e, w1)
      | (Inr l, w1) \<Rightarrow> download_locked L m l w1)"

definition not_exists_message :: "Geoip2DataBase \<Rightarrow> string" where
  "not_exists_message m = ''Database '' @ edition_id m @ '' not exists in '' @ path m @ ''.''"

definition reader ::
  "libs \<Rightarrow> Geoip2DataBase \<Rightarrow> world \<Rightarrow> (error + Reader) \<times> Geoip2DataBase \<times> world" where
  "reader L m w =
     (if priv_reader m = None \<and> \<not> exists m w
      then (Inl (DatabaseNotExists (not_exists_message m)), m, w)
      else
        (case priv_reader m of
           None \<Rightarrow>
             (case Reader_open L w (path m) of
                (Inl e, w1) \<Rightarrow> (Inl e, m, w1)
              | (Inr r, w1) \<Rightarrow> (Inr r, m\<lparr>priv_reader := Some r\<rparr>, w1))
         | Some r \<Rightarrow> (Inr r, m, w)))"

text \<open>The first two steps of the block once the size check has passed, named for the
  proofs: the request has been logged, and the directory is made when one is
  configured.\<close>

definition after_request :: "Geoip2DataBase \<Rightarrow> world \<Rightarrow> (error + unit) \<times> world" where
  "after_request m w =
     (if directory m \<noteq> []
      then makedirs (log (HttpGet GEOIP2_DOWNLOAD_URL (download_params m)) w) (directory m)
      else (Inr (), log (HttpGet GEOIP2_DOWNLOAD_URL (download_params m)) w))"

subsection \<open>Concrete configurations\<close>

text \<open>Process environments and instances on which the theorems below are run.\<close>

definition env_no_key :: process_env where
  "env_no_key =
     \<lparr>environ = Map.empty,
      DEFAULT_GEOIP2_TOOLS_DIRECTORY = ''/home/u/.config/geoip2-tools/''\<rparr>"

definition env_empty_key :: process_env where
  "env_empty_key =
     \<lparr>environ = Map.empty(''GEOIP2_MAXMIND_LICENSE_KEY'' \<mapsto> ''''),
      DEFAULT_GEOIP2_TOOLS_DIRECTORY = ''/home/u/.config/geoip2-tools/''\<rparr>"

definition env_key :: process_env where
  "env_key =
     \<lparr>environ = Map.empty(''GEOIP2_MAXMIND_LICENSE_KEY'' \<mapsto> ''K1''),
      DEFAULT_GEOIP2_TOOLS_DIRECTORY = ''/home/u/.config/geoip2-tools/''\<rparr>"

definition country_db :: Geoip2DataBase where
  "country_db =
     \<lparr>edition_id = ''GeoLite2-Country'', directory = ''/data'', license_key = ''K1'',
      priv_reader = None, priv_path = None\<rparr>"

definition custom_db :: Geoip2DataBase where
  "custom_db =
     \<lparr>edition_id = ''GeoIP2-ISP'', directory = ''/data'', license_key = ''K1'',
      priv_reader = None, priv_path = None\<rparr>"

text \<open>Worlds: \<open>world0\<close> has the directory \<^verbatim>\<open>/data\<close> and nothing in it; its endpoint answers
  with a three-chunk body (one chunk empty) that decodes to an archive with one
  \<^verbatim>\<open>.mmdb\<close> member, except for the edition \<^verbatim>\<open>GeoIP2-ISP\<close>, whose archive holds documents
  only, and for \<^verbatim>\<open>GeoLite2-ASN\<close>, for which the connection fails. \<open>world_installed\<close> is
  \<open>world0\<close> with a database already installed for \<open>country_db\<close>.\<close>

definition tar0 :: archive where
  "tar0 =
     \<lparr>getnames =
        [''GeoLite2-Country_20240101'',
         ''GeoLite2-Country_20240101/LICENSE.txt'',
         ''GeoLite2-Country_20240101/GeoLite2-Country.mmdb''],
      extractfile =
        (\<lambda>n. if n = ''GeoLite2-Country_20240101/GeoLite2-Country.mmdb'' then Some ''MMDB''
             else if n = ''GeoLite2-Country_20240101/LICENSE.txt'' then Some ''text''
             else None)\<rparr>"

definition tar_docs :: archive where
  "tar_docs =
     \<lparr>getnames = [''docs'', ''docs/README.txt''],
      extractfile = (\<lambda>n. if n = ''docs/README.txt'' then Some ''read me'' else None)\<rparr>"

definition libs0 :: libs where
  "libs0 =
     \<lparr>tarfile_open =
        (\<lambda>b. if b = ''TAR'' then Some tar0 else if b = ''DOCS'' then Some tar_docs else None),
      maxmind_valid = (\<lambda>b. b = ''MMDB'')\<rparr>"

definition server0 :: "string \<Rightarrow> (string \<times> string) list \<Rightarrow> http_outcome" where
  "server0 url params =
     (if url \<noteq> GEOIP2_DOWNLOAD_URL then ConnectionFailed
      else if map_of params ''edition_id'' = Some ''GeoLite2-ASN'' then ConnectionFailed
      else if map_of params ''edition_id'' = Some ''GeoIP2-ISP'' then Response [''DOCS''] False
      else Response [''TA'', '''', ''R''] False)"

definition world0 :: world where
  "world0 =
     \<lparr>fs = Map.empty([''data''] \<mapsto> Dir), cwd = [], dir_st_size = 4096,
      locked_elsewhere = {}, server = server0, events = [], next_reader_id = 0\<rparr>"

definition world_installed :: world where
  "world_installed =
     \<lparr>fs = Map.empty([''data''] \<mapsto> Dir, [''data'', ''GeoLite2-Country.mmdb''] \<mapsto> File ''MMDB''),
      cwd = [], dir_st_size = 4096, locked_elsewhere = {}, server = server0, events = [],
      next_reader_id = 0\<rparr>"

text \<open>\<open>world_isp_installed\<close> is \<open>world0\<close> with a database already installed for
  \<open>custom_db\<close>, the edition whose archive holds documents only.\<close>

definition world_isp_installed :: world where
  "world_isp_installed =
     \<lparr>fs = Map.empty([''data''] \<mapsto> Dir, [''data'', ''GeoIP2-ISP.mmdb''] \<mapsto> File ''MMDB''),
      cwd = [], dir_st_size = 4096, locked_elsewhere = {}, server = server0, events = [],
      next_reader_id = 0\<rparr>"

text \<open>Three more instances: one whose directory \<^verbatim>\<open>/var/lib/geoip\<close> is missing in
  \<open>world0\<close>; one with no directory at all (the process-wide default was the empty
  string), whose file lies in the working directory; and one with the missing
  directory and an edition identifier that is an absolute path into \<^verbatim>\<open>/data\<close>.\<close>

definition missing_dir_db :: Geoip2DataBase where
  "missing_dir_db =
     \<lparr>edition_id = ''GeoLite2-City'', directory = ''/var/lib/geoip'', license_key = ''K1'',
      priv_reader = None, priv_path = None\<rparr>"

definition env_empty_directory :: process_env where
  "env_empty_directory =
     \<lparr>environ = Map.empty(''GEOIP2_TOOLS_DIRECTORY'' \<mapsto> '''',
                          ''GEOIP2_MAXMIND_LICENSE_KEY'' \<mapsto> ''K1''),
      DEFAULT_GEOIP2_TOOLS_DIRECTORY = ''/home/u/.config/geoip2-tools/''\<rparr>"

definition relative_db :: Geoip2DataBase where
  "relative_db =
     \<lparr>edition_id = ''GeoLite2-City'', directory = '''', license_key = ''K1'',
      priv_reader = None, priv_path = None\<rparr>"

definition absolute_edition_db :: Geoip2DataBase where
  "absolute_edition_db =
     \<lparr>edition_id = ''/data/x'', directory = ''/var/lib/geoip'', license_key = ''K1'',
      priv_reader = None, priv_path = None\<rparr>"

section \<open>Properties\<close>

subsection \<open>Strings and paths\<close>

lemma startswith_slash_Cons [simp]: "startswith (x # s) ''/'' = (x = CHR ''/'')"
  by (simp add: startswith_def)

lemma startswith_slash_Nil [simp]: "\<not> startswith [] ''/''"
  by (simp add: startswith_def)

lemma startswith_slash_append:
  "startswith (e @ s) ''/'' = (if e = [] then startswith s ''/'' else startswith e ''/'')"
  by (cases e) simp_all

lemma endswith_append_self [simp]: "endswith (p @ x) x"
  by (simp add: endswith_def)

lemma endswith_iff: "endswith s x = (\<exists>p. s = p @ x)"
proof
  assume "endswith s x"
  then have "s = take (length s - length x) s @ x"
    by (simp add: endswith_def) (metis append_take_drop_id)
  then show "\<exists>p. s = p @ x" ..
next
  assume "\<exists>p. s = p @ x"
  then show "endswith s x" by auto
qed

lemma split_sep_not_Nil [simp]: "split_sep c s \<noteq> []"
  by (induction s) (auto split: list.splits)

lemma split_sep_append: "split_sep c (a @ c # b) = split_sep c a @ split_sep c b"
proof (induction a)
  case Nil
  show ?case by simp
next
  case (Cons x a)
  obtain y ys where "split_sep c a = y # ys"
    by (cases "split_sep c a") simp_all
  with Cons show ?case by simp
qed

subsection \<open>The constructor\<close>

lemmas init_simps = init_def dict_get_def DATABASE_ALIASES_def str_or_def py_or_def truthy_def
  GEOIP2_TOOLS_DIRECTORY_def GEOIP2_MAXMIND_LICENSE_KEY_ENVNAME_def

lemma init_Inr:
  "init env edition dir_arg key_arg = Inr m \<Longrightarrow>
   edition_id m = dict_get DATABASE_ALIASES edition edition
   \<and> directory m = str_or dir_arg (GEOIP2_TOOLS_DIRECTORY env)
   \<and> priv_reader m = None"
  by (auto simp: init_def Let_def split: option.splits)

text \<open>
  Claim C3, as the spec states it: construction fails whenever neither the
  \<^verbatim>\<open>license_key\<close> argument nor the environment supplies a non-empty credential. The
  constructor asserts \<^verbatim>\<open>self.license_key is not None\<close>, and
  \<^verbatim>\<open>license_key or os.environ.get(...)\<close> yields the environment's value whatever it is.
  With the variable set to the empty string and no argument, no non-empty credential
  is supplied, yet the constructor returns an instance whose credential is empty.
\<close>

theorem init_accepts_empty_environment_key:
  "\<not> truthy None
   \<and> \<not> truthy (environ env_empty_key GEOIP2_MAXMIND_LICENSE_KEY_ENVNAME)
   \<and> init env_empty_key ''country'' None None =
       Inr \<lparr>edition_id = ''GeoLite2-Country'', directory = ''/home/u/.config/geoip2-tools/'',
            license_key = '''', priv_reader = None, priv_path = None\<rparr>"
  by (simp add: init_simps env_empty_key_def)

text \<open>
  Claim C3, amended: for every directory and edition identifier, if the \<^verbatim>\<open>license_key\<close>
  argument is \<^verbatim>\<open>None\<close> or empty and the environment variable is not set at all, the
  constructor raises the assertion error ``A MaxMind license is required.''.
\<close>

theorem init_fails_without_credential:
  "\<not> truthy key_arg \<Longrightarrow> environ env GEOIP2_MAXMIND_LICENSE_KEY_ENVNAME = None \<Longrightarrow>
   init env edition dir_arg key_arg = Inl (AssertionError ''A MaxMind license is required.'')"
  by (simp add: init_def py_or_def Let_def)

theorem init_fails_without_credential_witness:
  "\<not> truthy (Some '''') \<and> environ env_no_key GEOIP2_MAXMIND_LICENSE_KEY_ENVNAME = None
   \<and> init env_no_key ''city'' (Some ''/data'') (Some '''') =
       Inl (AssertionError ''A MaxMind license is required.'')"
proof -
  have a: "\<not> truthy (Some '''')" by (simp add: truthy_def)
  have b: "environ env_no_key GEOIP2_MAXMIND_LICENSE_KEY_ENVNAME = None"
    by (simp add: env_no_key_def)
  from a b init_fails_without_credential [OF a b, of "''city''" "Some ''/data''"]
  show ?thesis by simp
qed

text \<open>
  Claim C5: \<^verbatim>\<open>path\<close> is a function of the construction-time configuration alone (its
  model takes the instance and no world, so it performs no I/O): it is
  \<^verbatim>\<open>os.path.join\<close> of the resolved directory and the canonical edition name followed by
  \<^verbatim>\<open>.mmdb\<close>. For every alias of the alias table the file name carries the canonical
  provider name, which differs from the alias. The one method that changes the
  instance, \<^verbatim>\<open>reader\<close>, leaves the path as it is.
\<close>

theorem path_joins_directory_and_canonical_name:
  "init env edition dir_arg key_arg = Inr m \<Longrightarrow>
   path m = os_path_join (str_or dir_arg (GEOIP2_TOOLS_DIRECTORY env))
              (dict_get DATABASE_ALIASES edition edition @ ''.mmdb'')
   \<and> (\<forall>(a, c) \<in> set DATABASE_ALIASES.
         edition = a \<longrightarrow> c \<noteq> a \<and> path m = os_path_join (directory m) (c @ ''.mmdb''))
   \<and> path (fst (snd (reader L m w))) = path m"
proof -
  assume a: "init env edition dir_arg key_arg = Inr m"
  have "path (fst (snd (reader L m w))) = path m"
    by (simp add: reader_def path_def split: option.splits prod.splits sum.splits)
  with init_Inr [OF a] show ?thesis
    by (auto simp: path_def dict_get_def DATABASE_ALIASES_def)
qed

theorem path_joins_directory_and_canonical_name_witness:
  "init env_key ''country'' (Some ''/data'') None = Inr country_db
   \<and> (''country'', ''GeoLite2-Country'') \<in> set DATABASE_ALIASES
   \<and> path country_db = ''/data/GeoLite2-Country.mmdb''"
proof -
  have a: "init env_key ''country'' (Some ''/data'') None = Inr country_db"
    by (simp add: init_simps env_key_def country_db_def)
  have b: "(''country'', ''GeoLite2-Country'') \<in> set DATABASE_ALIASES"
    by (simp add: DATABASE_ALIASES_def)
  from path_joins_directory_and_canonical_name [OF a] b
  have "path country_db = os_path_join (directory country_db) (''GeoLite2-Country'' @ ''.mmdb'')"
    by blast
  then have "path country_db = ''/data/GeoLite2-Country.mmdb''"
    by (simp add: country_db_def os_path_join_def startswith_def endswith_def)
  with a b show ?thesis by simp
qed

subsection \<open>Path resolution\<close>

lemma step_None [simp]: "step t None c = None"
  by (simp add: step_def)

lemma foldl_step_None [simp]: "foldl (step t) None cs = None"
  by (induction cs) simp_all

lemma step_not_dir: "\<not> is_dir_at t l \<Longrightarrow> step t (Some l) c = None"
  by (simp add: step_def)

lemma foldl_step_stuck:
  "cs \<noteq> [] \<Longrightarrow> (case s of None \<Rightarrow> True | Some l \<Rightarrow> \<not> is_dir_at t l) \<Longrightarrow>
   foldl (step t) s cs = None"
  by (cases cs; cases s) (simp_all add: step_not_dir)

lemma start_of_append: "a \<noteq> [] \<Longrightarrow> start_of wd (a @ b) = start_of wd a"
  by (simp add: start_of_def startswith_slash_append)

lemma walk_unfold:
  "a \<noteq> [] \<Longrightarrow> walk t wd a = foldl (step t) (Some (start_of wd a)) (split_sep CHR ''/'' a)"
  by (simp add: walk_def)

lemma walk_join:
  "a \<noteq> [] \<Longrightarrow>
   walk t wd (a @ CHR ''/'' # b) =
   foldl (step t) (foldl (step t) (Some (start_of wd a)) (split_sep CHR ''/'' a))
     (split_sep CHR ''/'' b)"
  by (simp add: walk_def split_sep_append start_of_append)

text \<open>A path joined below something that is no existing directory resolves to nothing:
  the walk is already stuck when it reaches the first component of the second part.\<close>

lemma walk_under_missing_directory:
  assumes "d \<noteq> []" and "\<not> startswith b ''/''"
    and nd: "\<not> (\<exists>l. walk t wd d = Some l \<and> is_dir_at t l)"
  shows "walk t wd (os_path_join d b) = None"
proof (cases "endswith d ''/''")
  case False
  with assms have j: "os_path_join d b = d @ CHR ''/'' # b"
    by (simp add: os_path_join_def)
  let ?X = "foldl (step t) (Some (start_of wd d)) (split_sep CHR ''/'' d)"
  have "walk t wd d = ?X"
    using \<open>d \<noteq> []\<close> by (rule walk_unfold)
  with nd have stuck: "case ?X of None \<Rightarrow> True | Some l \<Rightarrow> \<not> is_dir_at t l"
    by (auto split: option.splits)
  have "walk t wd (d @ CHR ''/'' # b) = foldl (step t) ?X (split_sep CHR ''/'' b)"
    using \<open>d \<noteq> []\<close> by (rule walk_join)
  also have "\<dots> = None"
    using split_sep_not_Nil stuck by (rule foldl_step_stuck)
  finally show ?thesis
    unfolding j .
next
  case True
  then obtain d' where d: "d = d' @ ''/''" by (auto simp: endswith_iff)
  with assms have j: "os_path_join d b = d' @ CHR ''/'' # b"
    by (simp add: os_path_join_def)
  let ?X = "foldl (step t) (Some (start_of wd d)) (split_sep CHR ''/'' d')"
  have wd: "walk t wd d = step t ?X []"
    using d by (simp add: walk_def split_sep_append)
  have stuck: "case ?X of None \<Rightarrow> True | Some l \<Rightarrow> \<not> is_dir_at t l"
  proof (cases ?X)
    case None
    then show ?thesis by simp
  next
    case (Some l)
    have "\<not> is_dir_at t l"
    proof
      assume "is_dir_at t l"
      then have "walk t wd d = Some l \<and> is_dir_at t l"
        by (simp add: wd Some step_def)
      with nd show False by blast
    qed
    with Some show ?thesis by simp
  qed
  have st: "start_of wd (d' @ CHR ''/'' # b) = start_of wd d"
    unfolding d by (cases d') (simp_all add: start_of_def)
  have "walk t wd (d' @ CHR ''/'' # b) = foldl (step t) ?X (split_sep CHR ''/'' b)"
    by (simp add: walk_def split_sep_append st)
  also have "\<dots> = None"
    using split_sep_not_Nil stuck by (rule foldl_step_stuck)
  finally show ?thesis
    unfolding j .
qed

text \<open>Resolution only grows with the tree: what resolved before a node was added
  resolves to the same location afterwards.\<close>

lemma node_at_mono: "t \<subseteq>\<^sub>m t' \<Longrightarrow> node_at t x = Some n \<Longrightarrow> node_at t' x = Some n"
  by (auto simp: node_at_def map_le_def dom_def split: if_splits)

lemma is_dir_at_mono: "t \<subseteq>\<^sub>m t' \<Longrightarrow> is_dir_at t x \<Longrightarrow> is_dir_at t' x"
  by (simp add: is_dir_at_def node_at_mono)

lemma step_mono: "t \<subseteq>\<^sub>m t' \<Longrightarrow> step t s c = Some l \<Longrightarrow> step t' s c = Some l"
  by (cases s) (auto simp: step_def is_dir_at_mono split: if_splits)

lemma foldl_step_mono:
  "t \<subseteq>\<^sub>m t' \<Longrightarrow> foldl (step t) s cs = Some l \<Longrightarrow> foldl (step t') s cs = Some l"
proof (induction cs arbitrary: s)
  case Nil
  then show ?case by simp
next
  case (Cons c cs)
  from Cons.prems(2) obtain y where y: "step t s c = Some y"
    by (cases "step t s c") simp_all
  with Cons.prems(1) have "step t' s c = Some y" by (rule step_mono)
  with Cons y show ?case by simp
qed

lemma walk_mono: "t \<subseteq>\<^sub>m t' \<Longrightarrow> walk t wd p = Some l \<Longrightarrow> walk t' wd p = Some l"
  by (auto simp: walk_def foldl_step_mono split: if_splits)

lemma stat_mono:
  "fs w \<subseteq>\<^sub>m fs w' \<Longrightarrow> cwd w' = cwd w \<Longrightarrow> stat w p = Some (l, n) \<Longrightarrow> stat w' p = Some (l, n)"
  by (auto simp: stat_def walk_mono node_at_mono split: option.splits)

text \<open>Writing a regular file where no directory was changes no resolution.\<close>

lemma is_dir_at_upd_File:
  "\<not> is_dir_at t l \<Longrightarrow> is_dir_at (t(l \<mapsto> File b)) x = is_dir_at t x"
  by (auto simp: is_dir_at_def node_at_def)

lemma step_upd_File: "\<not> is_dir_at t l \<Longrightarrow> step (t(l \<mapsto> File b)) = step t"
  by (intro ext) (simp add: step_def is_dir_at_upd_File split: option.splits)

lemma walk_upd_File: "\<not> is_dir_at t l \<Longrightarrow> walk (t(l \<mapsto> File b)) wd p = walk t wd p"
  by (simp add: walk_def step_upd_File)

lemma node_at_upd_File: "l \<noteq> [] \<Longrightarrow> node_at (t(l \<mapsto> File b)) l = Some (File b)"
  by (simp add: node_at_def)

lemma not_dir_not_root: "\<not> is_dir_at t l \<Longrightarrow> l \<noteq> []"
  by (auto simp: is_dir_at_def node_at_def)

lemma log_fields [simp]:
  "fs (log e w) = fs w" "cwd (log e w) = cwd w" "server (log e w) = server w"
  "events (log e w) = events w @ [e]"
  by (simp_all add: log_def)

lemma stat_log [simp]: "stat (log e w) p = stat w p"
  by (simp add: stat_def cong: option.case_cong)

lemma isdir_iff: "isdir w p = (\<exists>l. walk (fs w) (cwd w) p = Some l \<and> is_dir_at (fs w) l)"
  by (auto simp: isdir_def stat_def is_dir_at_def split: option.splits node.splits)

subsection \<open>makedirs\<close>

lemma mkdir_p_map_le: "mkdir_p t cur cs = (t', ok) \<Longrightarrow> t \<subseteq>\<^sub>m t'"
proof (induction t cur cs rule: mkdir_p.induct)
  case (1 t cur)
  then show ?case by simp
next
  case (2 t cur c cs)
  show ?case
  proof (cases "\<not> is_dir_at t cur \<or> c = [] \<or> c = ''.'' \<or> c = ''..''")
    case True
    with 2 show ?thesis by (auto split: if_splits)
  next
    case False
    show ?thesis
    proof (cases "node_at t (cur @ [c])")
      case None
      then have n: "t (cur @ [c]) = None" by (simp add: node_at_def)
      from 2 False None have "t(cur @ [c] \<mapsto> Dir) \<subseteq>\<^sub>m t'" by (simp add: fun_upd_def)
      moreover from n have "t \<subseteq>\<^sub>m t(cur @ [c] \<mapsto> Dir)"
        by (auto simp: map_le_def)
      ultimately show ?thesis by (rule map_le_trans[rotated])
    next
      case (Some n)
      with 2 False show ?thesis by simp
    qed
  qed
qed

lemma mkdir_p_existing:
  "foldl (step t) (Some cur) cs = Some l \<Longrightarrow> is_dir_at t l \<Longrightarrow> mkdir_p t cur cs = (t, True)"
proof (induction cs arbitrary: cur)
  case Nil
  then show ?case by simp
next
  case (Cons c cs)
  from Cons.prems(1) obtain y where y: "step t (Some cur) c = Some y"
    by (cases "step t (Some cur) c") simp_all
  then have dc: "is_dir_at t cur" by (auto simp: step_def split: if_splits)
  from Cons.prems(1) y have f: "foldl (step t) (Some y) cs = Some l" by simp
  have dy: "is_dir_at t y"
  proof (cases cs)
    case Nil
    with f Cons.prems(2) show ?thesis by simp
  next
    case (Cons a as)
    with f show ?thesis by (cases "is_dir_at t y") (simp_all add: step_not_dir)
  qed
  from Cons.IH [OF f Cons.prems(2)] have ih: "mkdir_p t y cs = (t, True)" .
  from y dc dy ih show ?case
    by (auto simp: step_def is_dir_at_def split: if_splits)
qed

lemma makedirs_existing: "isdir w p \<Longrightarrow> makedirs w p = (Inr (), log (MakeDirs p) w)"
  by (auto simp: isdir_iff makedirs_def walk_def mkdir_p_existing split: if_splits)

lemma makedirs_props:
  "makedirs w p = (r, w2) \<Longrightarrow>
   fs w \<subseteq>\<^sub>m fs w2 \<and> cwd w2 = cwd w \<and> events w2 = events w @ [MakeDirs p]"
  by (auto simp: makedirs_def log_def mkdir_p_map_le split: if_splits prod.splits)

subsection \<open>The lock\<close>

lemma open_append_Inr:
  "open_append w p = (Inr l, w1) \<Longrightarrow>
   walk (fs w) (cwd w) p = Some l \<and> \<not> is_dir_at (fs w) l
   \<and> ((\<exists>b. fs w l = Some (File b) \<and> w1 = w)
       \<or> (fs w l = None \<and> w1 = w\<lparr>fs := (fs w)(l \<mapsto> File [])\<rparr>))"
  by (auto simp: open_append_def is_dir_at_def node_at_def
      split: option.splits node.splits if_splits)

text \<open>What a successful \<^verbatim>\<open>Lock(path, mode='wb')\<close> leaves: the file at the resolved
  location, with no bytes, whatever it held before.\<close>

lemma Lock_enter_wb_Inr:
  assumes "Lock_enter w p ''wb'' = (Inr l, w1)"
  shows "walk (fs w) (cwd w) p = Some l" "\<not> is_dir_at (fs w) l" "l \<notin> locked_elsewhere w"
    "w1 = w\<lparr>fs := (fs w)(l \<mapsto> File [])\<rparr>"
proof -
  from assms obtain w0 where o: "open_append w p = (Inr l, w0)"
    and nl: "l \<notin> locked_elsewhere w0" and w1: "w1 = ftruncate w0 l"
    by (auto simp: Lock_enter_def split: prod.splits sum.splits if_splits)
  from open_append_Inr [OF o] show "walk (fs w) (cwd w) p = Some l" "\<not> is_dir_at (fs w) l"
    by simp_all
  from open_append_Inr [OF o] nl show "l \<notin> locked_elsewhere w" by auto
  from open_append_Inr [OF o] w1 show "w1 = w\<lparr>fs := (fs w)(l \<mapsto> File [])\<rparr>"
    by (auto simp: ftruncate_def)
qed

lemma Lock_enter_wb_stat:
  assumes "Lock_enter w p ''wb'' = (Inr l, w1)"
  shows "stat w1 p = Some (l, File [])"
proof -
  note L = Lock_enter_wb_Inr [OF assms]
  from L(2) have "l \<noteq> []" by (rule not_dir_not_root)
  with L show ?thesis
    by (simp add: stat_def walk_upd_File node_at_upd_File)
qed

lemma isdir_after_lock:
  assumes "Lock_enter w p ''wb'' = (Inr l, w1)"
  shows "isdir w1 d = isdir w d"
  using Lock_enter_wb_Inr(2,4) [OF assms]
  by (simp add: isdir_iff walk_upd_File is_dir_at_upd_File)

lemma Lock_enter_under_missing_directory:
  assumes "directory m \<noteq> []" and "\<not> startswith (edition_id m) ''/''"
    and "\<not> isdir w (directory m)"
  shows "Lock_enter w (path m) mode = (Inl OSError, w)"
proof -
  have "\<not> startswith (edition_id m @ ''.mmdb'') ''/''"
    using assms(2) by (simp add: startswith_slash_append)
  moreover from assms(3)
  have "\<not> (\<exists>l. walk (fs w) (cwd w) (directory m) = Some l \<and> is_dir_at (fs w) l)"
    by (simp add: isdir_iff)
  ultimately have "walk (fs w) (cwd w) (path m) = None"
    unfolding path_def using assms(1) by (intro walk_under_missing_directory)
  then show ?thesis
    by (simp add: Lock_enter_def open_append_def)
qed

lemma directory_exists_after_lock:
  assumes "Lock_enter w (path m) ''wb'' = (Inr l, w1)"
    and "directory m \<noteq> []" and "\<not> startswith (edition_id m) ''/''"
  shows "isdir w1 (directory m)"
proof (rule ccontr)
  assume "\<not> isdir w1 (directory m)"
  then have "\<not> isdir w (directory m)"
    by (simp add: isdir_after_lock [OF assms(1)])
  from Lock_enter_under_missing_directory [OF assms(2,3) this, of "''wb''"] assms(1)
  show False by simp
qed

subsection \<open>The body of download\<close>

lemma write_chunks_concat: "write_chunks t cs = t @ concat cs"
  by (induction cs arbitrary: t) simp_all

lemma download_after_lock:
  assumes "Lock_enter w (path m) ''wb'' = (Inr l, w1)"
  shows "download L m w = download_locked L m l w1"
    and "getsize w1 (path m) = Inr 0"
    and "server w1 = server w" and "events w1 = events w" and "cwd w1 = cwd w"
  using assms Lock_enter_wb_stat [OF assms] Lock_enter_wb_Inr(4) [OF assms]
  by (simp_all add: download_def getsize_def)

lemma after_request_props:
  assumes "after_request m w = (r, w2)"
  shows "fs w \<subseteq>\<^sub>m fs w2" and "cwd w2 = cwd w"
    and "events w2 = events w @ HttpGet GEOIP2_DOWNLOAD_URL (download_params m)
                     # (if directory m = [] then [] else [MakeDirs (directory m)])"
  using assms
  by (auto simp: after_request_def log_def dest!: makedirs_props split: if_splits)

lemma after_request_existing:
  assumes "directory m = [] \<or> isdir w (directory m)"
  shows "fst (after_request m w) = Inr ()"
  using assms
proof
  assume "directory m = []"
  then show ?thesis by (simp add: after_request_def)
next
  assume "isdir w (directory m)"
  then have "isdir (log (HttpGet GEOIP2_DOWNLOAD_URL (download_params m)) w) (directory m)"
    by (simp add: isdir_iff)
  from makedirs_existing [OF this] show ?thesis
    by (simp add: after_request_def)
qed

lemma download_locked_response:
  assumes "getsize w (path m) = Inr 0"
    and "server w GEOIP2_DOWNLOAD_URL (download_params m) = Response chunks broken"
    and "after_request m w = (r, w2)"
  shows "download_locked L m l w =
     (case r of
        Inl e \<Rightarrow> (Inl e, w2)
      | Inr u \<Rightarrow>
          if broken then (Inl RequestException, w2)
          else (case tarfile_open L (concat chunks) of
                  None \<Rightarrow> (Inl ReadError, w2)
                | Some tar \<Rightarrow>
                    (case List.find (\<lambda>x. endswith x ''.mmdb'') (getnames tar) of
                       None \<Rightarrow> (Inl StopIteration, w2)
                     | Some member_path \<Rightarrow> extract_file_to w2 tar member_path l)))"
  using assms
  by (auto simp: download_locked_def requests_get_def write_chunks_concat next_filter_def
        after_request_def split: sum.splits option.splits)

subsection \<open>Evaluation on the concrete worlds\<close>

lemmas fs_simps = stat_def walk_def start_of_def step_def is_dir_at_def node_at_def
  lexists_def isdir_def getsize_def read_file_def open_append_def contents_def ftruncate_def
  fwrite_def log_def makedirs_def Lock_enter_def

lemmas dl_simps = download_def download_locked_def requests_get_def next_filter_def
  extract_file_to_def path_def os_path_join_def endswith_def download_params_def
  GEOIP2_DOWNLOAD_URL_def server0_def libs0_def tar0_def tar_docs_def

lemma path_country_db: "path country_db = ''/data/GeoLite2-Country.mmdb''"
  by (simp add: path_def country_db_def os_path_join_def endswith_def)

lemma path_custom_db: "path custom_db = ''/data/GeoIP2-ISP.mmdb''"
  by (simp add: path_def custom_db_def os_path_join_def endswith_def)

lemma Lock_enter_world0_country:
  "Lock_enter world0 (path country_db) ''wb'' =
     (Inr [''data'', ''GeoLite2-Country.mmdb''],
      world0\<lparr>fs := (fs world0)([''data'', ''GeoLite2-Country.mmdb''] \<mapsto> File [])\<rparr>)"
  by (simp add: path_country_db world0_def fs_simps)

lemma Lock_enter_world0_custom:
  "Lock_enter world0 (path custom_db) ''wb'' =
     (Inr [''data'', ''GeoIP2-ISP.mmdb''],
      world0\<lparr>fs := (fs world0)([''data'', ''GeoIP2-ISP.mmdb''] \<mapsto> File [])\<rparr>)"
  by (simp add: path_custom_db world0_def fs_simps)

lemma download_world0_country: "fst (download libs0 country_db world0) = Inr ()"
  by (simp add: world0_def fs_simps dl_simps country_db_def)

lemma response_world0_country:
  "server world0 GEOIP2_DOWNLOAD_URL (download_params country_db) =
     Response [''TA'', '''', ''R''] False"
  by (simp add: world0_def server0_def download_params_def country_db_def)

lemma response_world0_custom:
  "server world0 GEOIP2_DOWNLOAD_URL (download_params custom_db) = Response [''DOCS''] False"
  by (simp add: world0_def server0_def download_params_def custom_db_def)

subsection \<open>Edition identifiers outside the alias table\<close>

lemma foldl_step_skip_empty:
  "cs \<noteq> [] \<Longrightarrow> foldl (step t) (step t s []) cs = foldl (step t) s cs"
proof (cases s)
  case None
  then show ?thesis by simp
next
  case (Some l)
  assume "cs \<noteq> []"
  show ?thesis
  proof (cases "is_dir_at t l")
    case True
    with Some show ?thesis by (simp add: step_def)
  next
    case False
    with Some have "step t s [] = None" by (simp add: step_def)
    moreover from False Some \<open>cs \<noteq> []\<close> have "foldl (step t) s cs = None"
      by (intro foldl_step_stuck) simp_all
    ultimately show ?thesis by simp
  qed
qed

lemma walk_join_template:
  assumes "d \<noteq> []" and "\<not> startswith b ''/''"
  shows "walk t wd (os_path_join d b) = walk t wd (d @ ''/'' @ b)"
proof (cases "endswith d ''/''")
  case False
  with assms show ?thesis by (simp add: os_path_join_def)
next
  case True
  then obtain d' where d: "d = d' @ ''/''" by (auto simp: endswith_iff)
  with assms have j: "os_path_join d b = d' @ CHR ''/'' # b"
    by (simp add: os_path_join_def)
  have l: "d @ ''/'' @ b = d' @ CHR ''/'' # (CHR ''/'' # b)"
    by (simp add: d)
  have st: "start_of wd (d' @ CHR ''/'' # (CHR ''/'' # b)) = start_of wd (d' @ CHR ''/'' # b)"
    by (cases d') (simp_all add: start_of_def)
  show ?thesis
    unfolding j l
    by (simp add: walk_def split_sep_append st foldl_step_skip_empty)
qed

lemma not_below_itself: "b \<noteq> d @ CHR ''/'' # b"
proof
  assume "b = d @ CHR ''/'' # b"
  then have "length b = length (d @ CHR ''/'' # b)" by (rule arg_cong)
  then show False by simp
qed

text \<open>When \<^verbatim>\<open>os.path.join\<close> of a directory and a database file name is the directory, one
  separator and the name, written out.\<close>

lemma path_is_template_iff:
  "(os_path_join d (e @ ''.mmdb'') = d @ ''/'' @ e @ ''.mmdb'') =
   (d \<noteq> [] \<and> \<not> endswith d ''/'' \<and> \<not> startswith e ''/'')"
proof -
  have s: "startswith (e @ ''.mmdb'') ''/'' = startswith e ''/''"
    by (simp add: startswith_slash_append)
  have n: "e @ ''.mmdb'' \<noteq> d @ CHR ''/'' # e @ ''.mmdb''"
    by (rule not_below_itself)
  show ?thesis
    using n by (auto simp: os_path_join_def s)
qed

text \<open>
  Claim C10, as stated: for every edition identifier that is no key of the alias
  table, \<^verbatim>\<open>path()\<close> equals \<^verbatim>\<open>{directory}/{edition_id}.mmdb\<close>. The identifier \<^verbatim>\<open>/data/x\<close> is
  no key of the table and is adopted verbatim, but \<^verbatim>\<open>os.path.join\<close> drops the directory
  before an absolute file name: with the directory \<^verbatim>\<open>/var/lib/geoip\<close> the path is
  \<^verbatim>\<open>/data/x.mmdb\<close>, which is not the text \<^verbatim>\<open>/var/lib/geoip//data/x.mmdb\<close> and not the same
  place either: in \<open>world0\<close> the first resolves into \<^verbatim>\<open>/data\<close> and the second to nothing.
\<close>

theorem path_of_absolute_edition_is_not_the_template:
  "''/data/x'' \<notin> fst ` set DATABASE_ALIASES
   \<and> init env_key ''/data/x'' (Some ''/var/lib/geoip'') None = Inr absolute_edition_db
   \<and> edition_id absolute_edition_db = ''/data/x''
   \<and> directory absolute_edition_db = ''/var/lib/geoip''
   \<and> path absolute_edition_db = ''/data/x.mmdb''
   \<and> path absolute_edition_db \<noteq> ''/var/lib/geoip'' @ ''/'' @ ''/data/x'' @ ''.mmdb''
   \<and> walk (fs world0) (cwd world0) (path absolute_edition_db) = Some [''data'', ''x.mmdb'']
   \<and> walk (fs world0) (cwd world0) (''/var/lib/geoip'' @ ''/'' @ ''/data/x'' @ ''.mmdb'') = None"
  by (simp add: init_simps env_key_def absolute_edition_db_def DATABASE_ALIASES_def path_def
      os_path_join_def endswith_def world0_def fs_simps)

text \<open>The two other ways for the path to differ from the text: the directory ends with
  a separator, as the default directory does, and no second separator is put in; the
  directory is the empty string, and the path is the bare file name.\<close>

lemma path_with_default_and_with_empty_directory:
  "init env_key ''GeoIP2-ISP'' None None =
     Inr (custom_db\<lparr>directory := ''/home/u/.config/geoip2-tools/''\<rparr>)
   \<and> path (custom_db\<lparr>directory := ''/home/u/.config/geoip2-tools/''\<rparr>) =
       ''/home/u/.config/geoip2-tools/GeoIP2-ISP.mmdb''
   \<and> init env_empty_directory ''GeoIP2-ISP'' None None = Inr (custom_db\<lparr>directory := ''''\<rparr>)
   \<and> path (custom_db\<lparr>directory := ''''\<rparr>) = ''GeoIP2-ISP.mmdb''"
  by (simp add: init_simps env_key_def env_empty_directory_def custom_db_def path_def
      os_path_join_def endswith_def)

text \<open>
  Claim C10, amended: an edition identifier that is no key of the alias table is
  adopted verbatim as the canonical edition name. \<^verbatim>\<open>path()\<close> is \<^verbatim>\<open>os.path.join\<close> of the
  directory and the unmodified string followed by \<^verbatim>\<open>.mmdb\<close>, and the \<^verbatim>\<open>edition_id\<close> query
  parameter of the download request is the unmodified string. The path is the text
  \<^verbatim>\<open>{directory}/{edition_id}.mmdb\<close> exactly when the directory is not empty and does not
  end with a separator and the identifier does not start with one; with a non-empty
  directory and an identifier without leading separator, path and text resolve to
  the same location of every file tree.
\<close>

theorem unknown_edition_is_kept_verbatim:
  "edition \<notin> fst ` set DATABASE_ALIASES \<Longrightarrow> init env edition dir_arg key_arg = Inr m \<Longrightarrow>
   edition_id m = edition
   \<and> path m = os_path_join (directory m) (edition @ ''.mmdb'')
   \<and> map_of (download_params m) ''edition_id'' = Some edition
   \<and> (path m = directory m @ ''/'' @ edition @ ''.mmdb'') =
       (directory m \<noteq> [] \<and> \<not> endswith (directory m) ''/'' \<and> \<not> startswith edition ''/'')
   \<and> (directory m \<noteq> [] \<and> \<not> startswith edition ''/''
        \<longrightarrow> walk t wd (path m) = walk t wd (directory m @ ''/'' @ edition @ ''.mmdb''))"
proof -
  assume a: "edition \<notin> fst ` set DATABASE_ALIASES"
    and b: "init env edition dir_arg key_arg = Inr m"
  from a have "map_of DATABASE_ALIASES edition = None"
    by (simp add: map_of_eq_None_iff)
  with init_Inr [OF b] have e: "edition_id m = edition"
    by (simp add: dict_get_def)
  have s: "\<not> startswith edition ''/'' \<Longrightarrow> \<not> startswith (edition @ ''.mmdb'') ''/''"
    by (simp add: startswith_slash_append)
  have p: "path m = os_path_join (directory m) (edition @ ''.mmdb'')"
    by (simp add: path_def e)
  have i: "(path m = directory m @ ''/'' @ edition @ ''.mmdb'') =
       (directory m \<noteq> [] \<and> \<not> endswith (directory m) ''/'' \<and> \<not> startswith edition ''/'')"
    unfolding p by (rule path_is_template_iff)
  have w: "directory m \<noteq> [] \<and> \<not> startswith edition ''/''
        \<longrightarrow> walk t wd (path m) = walk t wd (directory m @ ''/'' @ edition @ ''.mmdb'')"
    unfolding p using s by (simp add: walk_join_template)
  from e p i w show ?thesis
    by (simp add: download_params_def)
qed

theorem unknown_edition_is_kept_verbatim_witness:
  "''GeoIP2-ISP'' \<notin> fst ` set DATABASE_ALIASES
   \<and> init env_key ''GeoIP2-ISP'' (Some ''/data'') None = Inr custom_db
   \<and> directory custom_db \<noteq> [] \<and> \<not> endswith (directory custom_db) ''/''
   \<and> \<not> startswith ''GeoIP2-ISP'' ''/''
   \<and> edition_id custom_db = ''GeoIP2-ISP''
   \<and> path custom_db = ''/data/GeoIP2-ISP.mmdb''
   \<and> map_of (download_params custom_db) ''edition_id'' = Some ''GeoIP2-ISP''"
proof -
  have a: "''GeoIP2-ISP'' \<notin> fst ` set DATABASE_ALIASES"
    by (simp add: DATABASE_ALIASES_def)
  have b: "init env_key ''GeoIP2-ISP'' (Some ''/data'') None = Inr custom_db"
    by (simp add: init_simps env_key_def custom_db_def)
  have c: "directory custom_db \<noteq> [] \<and> \<not> endswith (directory custom_db) ''/''
           \<and> \<not> startswith ''GeoIP2-ISP'' ''/''"
    by (simp add: custom_db_def endswith_def)
  from unknown_edition_is_kept_verbatim [OF a b] c
  have "edition_id custom_db = ''GeoIP2-ISP''
        \<and> path custom_db = directory custom_db @ ''/'' @ ''GeoIP2-ISP'' @ ''.mmdb''
        \<and> map_of (download_params custom_db) ''edition_id'' = Some ''GeoIP2-ISP''"
    by blast
  with a b c show ?thesis by (simp add: custom_db_def)
qed

subsection \<open>exists and the placeholder\<close>

text \<open>
  Claim C8: \<^verbatim>\<open>exists()\<close> is true exactly when the path resolves to an entry of the file
  system, whatever the entry holds. In particular it is false while nothing is at the
  path, and true in the world in which the block of \<^verbatim>\<open>download\<close> starts, right after
  the lock has been taken: there the file is present, holds no bytes, and nothing has
  been written or requested yet.
\<close>

theorem exists_iff_entry_at_path:
  "exists m w = (stat w (path m) \<noteq> None)
   \<and> (Lock_enter w (path m) ''wb'' = (Inr l, w1) \<longrightarrow>
        download L m w = download_locked L m l w1
        \<and> exists m w1 \<and> read_file w1 (path m) = Some [] \<and> events w1 = events w)"
proof (intro conjI impI)
  show "exists m w = (stat w (path m) \<noteq> None)"
    by (simp add: exists_def lexists_def)
next
  assume a: "Lock_enter w (path m) ''wb'' = (Inr l, w1)"
  from download_after_lock(1) [OF a] show "download L m w = download_locked L m l w1" .
  from Lock_enter_wb_stat [OF a] show "exists m w1" "read_file w1 (path m) = Some []"
    by (simp_all add: exists_def lexists_def read_file_def)
  from download_after_lock(4) [OF a] show "events w1 = events w" .
qed

theorem exists_iff_entry_at_path_witness:
  "\<not> exists country_db world0
   \<and> Lock_enter world0 (path country_db) ''wb'' =
       (Inr [''data'', ''GeoLite2-Country.mmdb''],
        world0\<lparr>fs := (fs world0)([''data'', ''GeoLite2-Country.mmdb''] \<mapsto> File [])\<rparr>)
   \<and> exists country_db
        (world0\<lparr>fs := (fs world0)([''data'', ''GeoLite2-Country.mmdb''] \<mapsto> File [])\<rparr>)
   \<and> read_file
        (world0\<lparr>fs := (fs world0)([''data'', ''GeoLite2-Country.mmdb''] \<mapsto> File [])\<rparr>)
        (path country_db) = Some []"
proof -
  have a: "stat world0 (path country_db) = None"
    by (simp add: path_country_db world0_def fs_simps)
  from exists_iff_entry_at_path [of country_db world0 "[''data'', ''GeoLite2-Country.mmdb'']"
      "world0\<lparr>fs := (fs world0)([''data'', ''GeoLite2-Country.mmdb''] \<mapsto> File [])\<rparr>" libs0]
    a Lock_enter_world0_country
  show ?thesis by simp
qed

subsection \<open>download\<close>

text \<open>
  Claim C9, as stated: whenever the configured directory does not exist, \<^verbatim>\<open>download()\<close>
  raises an I/O error while taking the lock, and \<^verbatim>\<open>os.makedirs\<close> never runs for a
  directory that was missing. \<^verbatim>\<open>os.path.join\<close> drops the directory when the file name
  is absolute, so with the edition identifier \<^verbatim>\<open>/data/x\<close> the target is
  \<^verbatim>\<open>/data/x.mmdb\<close>: the lock is taken although \<^verbatim>\<open>/var/lib/geoip\<close> is missing, the
  download succeeds, and \<^verbatim>\<open>os.makedirs\<close> runs and creates the missing directory.
\<close>

theorem download_makes_missing_directory_for_absolute_edition:
  "init env_key ''/data/x'' (Some ''/var/lib/geoip'') None = Inr absolute_edition_db
   \<and> \<not> lexists world0 (directory absolute_edition_db)
   \<and> fst (download libs0 absolute_edition_db world0) = Inr ()
   \<and> events (snd (download libs0 absolute_edition_db world0)) =
       [HttpGet GEOIP2_DOWNLOAD_URL (download_params absolute_edition_db),
        MakeDirs ''/var/lib/geoip'',
        Write [''data'', ''x.mmdb''] ''MMDB'']
   \<and> isdir (snd (download libs0 absolute_edition_db world0)) ''/var/lib/geoip''"
  by (simp add: init_simps env_key_def absolute_edition_db_def world0_def fs_simps dl_simps)

text \<open>The other way for the target to lie outside the configured directory: the
  directory is the empty string (the environment set \<^verbatim>\<open>GEOIP2_TOOLS_DIRECTORY\<close> to
  it), the target is relative to the working directory, the lock is taken and
  \<^verbatim>\<open>if self.directory:\<close> skips \<^verbatim>\<open>os.makedirs\<close>.\<close>

lemma download_with_empty_directory:
  "init env_empty_directory ''city'' None None = Inr relative_db
   \<and> \<not> lexists world0 (directory relative_db)
   \<and> path relative_db = ''GeoLite2-City.mmdb''
   \<and> fst (download libs0 relative_db world0) = Inr ()
   \<and> events (snd (download libs0 relative_db world0)) =
       [HttpGet GEOIP2_DOWNLOAD_URL (download_params relative_db),
        Write [''GeoLite2-City.mmdb''] ''MMDB'']"
  by (simp add: init_simps env_empty_directory_def relative_db_def world0_def fs_simps dl_simps)

text \<open>
  Claim C9, amended: if a directory is configured (it is not the empty string), the
  canonical edition name does not start with a path separator, and the directory is
  no existing directory when \<^verbatim>\<open>download()\<close> is invoked, then taking the lock raises an
  I/O error, \<^verbatim>\<open>download()\<close> raises it, and the world is as it was: no request was
  sent and \<^verbatim>\<open>os.makedirs\<close> did not run.
\<close>

theorem download_fails_under_missing_directory:
  assumes "directory m \<noteq> []" and "\<not> startswith (edition_id m) ''/''"
    and "\<not> isdir w (directory m)"
  shows "Lock_enter w (path m) ''wb'' = (Inl OSError, w) \<and> download L m w = (Inl OSError, w)"
proof -
  have "Lock_enter w (path m) ''wb'' = (Inl OSError, w)"
    using assms by (rule Lock_enter_under_missing_directory)
  then show ?thesis by (simp add: download_def)
qed

theorem download_fails_under_missing_directory_witness:
  "directory missing_dir_db \<noteq> [] \<and> \<not> startswith (edition_id missing_dir_db) ''/''
   \<and> \<not> isdir world0 (directory missing_dir_db)
   \<and> download libs0 missing_dir_db world0 = (Inl OSError, world0)"
proof -
  have a: "directory missing_dir_db \<noteq> []"
    and b: "\<not> startswith (edition_id missing_dir_db) ''/''"
    by (simp_all add: missing_dir_db_def)
  have c: "\<not> isdir world0 (directory missing_dir_db)"
    by (simp add: missing_dir_db_def world0_def fs_simps)
  from a b c download_fails_under_missing_directory [OF a b c, of libs0]
  show ?thesis by simp
qed

text \<open>
  The block on an archive without database: the lock has been taken, the endpoint has
  answered with a complete body, the body decodes to an archive, and no member name
  of the archive ends with \<^verbatim>\<open>.mmdb\<close>. Then \<^verbatim>\<open>download()\<close> fails with an error, which is
  the \<open>StopIteration\<close> of \<^verbatim>\<open>next\<close> unless the edition name is an absolute path; the file
  at \<^verbatim>\<open>path()\<close> is as empty as the lock left it; and the outward calls are the request
  and the directory creation only.
\<close>

lemma download_after_lock_without_database_member:
  assumes lock: "Lock_enter w (path m) ''wb'' = (Inr l, w1)"
    and resp: "server w GEOIP2_DOWNLOAD_URL (download_params m) = Response chunks False"
    and tar: "tarfile_open L (concat chunks) = Some tar"
    and none: "\<forall>n \<in> set (getnames tar). \<not> endswith n ''.mmdb''"
  shows "(\<exists>e. fst (download L m w) = Inl e)
       \<and> (\<not> startswith (edition_id m) ''/'' \<longrightarrow> fst (download L m w) = Inl StopIteration)
       \<and> read_file w1 (path m) = Some []
       \<and> read_file (snd (download L m w)) (path m) = Some []
       \<and> events (snd (download L m w)) =
           events w @ HttpGet GEOIP2_DOWNLOAD_URL (download_params m)
             # (if directory m = [] then [] else [MakeDirs (directory m)])"
proof -
  note dl = download_after_lock [OF lock]
  obtain r w2 where ar: "after_request m w1 = (r, w2)"
    by (cases "after_request m w1")
  from resp dl(3)
  have resp1: "server w1 GEOIP2_DOWNLOAD_URL (download_params m) = Response chunks False"
    by simp
  from none have f: "List.find (\<lambda>x. endswith x ''.mmdb'') (getnames tar) = None"
    by (simp add: find_None_iff)
  have d: "download L m w =
      (case r of Inl e \<Rightarrow> (Inl e, w2) | Inr u \<Rightarrow> (Inl StopIteration, w2))"
    unfolding dl(1) download_locked_response [OF dl(2) resp1 ar]
    by (cases r) (simp_all add: tar f)
  note p = after_request_props [OF ar]
  have s1: "stat w1 (path m) = Some (l, File [])"
    by (rule Lock_enter_wb_stat [OF lock])
  have "stat w2 (path m) = Some (l, File [])"
    using p(1) p(2) s1 by (rule stat_mono)
  then have r2: "read_file w2 (path m) = Some []"
    by (simp add: read_file_def)
  have e: "\<exists>e. fst (download L m w) = Inl e"
    unfolding d by (cases r) simp_all
  have st: "\<not> startswith (edition_id m) ''/'' \<longrightarrow> fst (download L m w) = Inl StopIteration"
  proof
    assume rel: "\<not> startswith (edition_id m) ''/''"
    have "directory m = [] \<or> isdir w1 (directory m)"
      using directory_exists_after_lock [OF lock _ rel] by blast
    from after_request_existing [OF this] ar have "r = Inr ()" by simp
    then show "fst (download L m w) = Inl StopIteration"
      unfolding d by simp
  qed
  have sn: "snd (download L m w) = w2"
    unfolding d by (cases r) simp_all
  from e st s1 r2 p(3) dl(4) show ?thesis
    unfolding sn by (simp add: read_file_def)
qed

lemma Lock_enter_on_file:
  assumes "stat w p = Some (l, File b)" and "l \<notin> locked_elsewhere w"
  shows "Lock_enter w p ''wb'' = (Inr l, ftruncate w l)"
proof -
  from assms(1) have "walk (fs w) (cwd w) p = Some l" and "node_at (fs w) l = Some (File b)"
    by (auto simp: stat_def split: option.splits)
  then have "open_append w p = (Inr l, w)"
    by (simp add: open_append_def)
  with assms(2) show ?thesis
    by (simp add: Lock_enter_def)
qed

text \<open>
  Claim C2 says that a download whose archive has no member with a name ending in
  \<^verbatim>\<open>.mmdb\<close> fails with an error and leaves the content of the target file unchanged by
  that invocation, with no bytes written. The error is raised and nothing is written
  to the handle, but the invocation has already emptied the file when it took the
  lock with \<^verbatim>\<open>mode='wb'\<close>: whatever bytes \<open>b\<close> a regular file at \<^verbatim>\<open>path()\<close> held before the
  call, afterwards it holds none. The outward calls are the request and the
  directory creation only.
\<close>

theorem download_without_database_member_empties_installed_file:
  assumes inst: "stat w (path m) = Some (l, File b)" and free: "l \<notin> locked_elsewhere w"
    and resp: "server w GEOIP2_DOWNLOAD_URL (download_params m) = Response chunks False"
    and tar: "tarfile_open L (concat chunks) = Some tar"
    and none: "\<forall>n \<in> set (getnames tar). \<not> endswith n ''.mmdb''"
  shows "(\<exists>e. fst (download L m w) = Inl e)
       \<and> (\<not> startswith (edition_id m) ''/'' \<longrightarrow> fst (download L m w) = Inl StopIteration)
       \<and> read_file w (path m) = Some b
       \<and> read_file (snd (download L m w)) (path m) = Some []
       \<and> events (snd (download L m w)) =
           events w @ HttpGet GEOIP2_DOWNLOAD_URL (download_params m)
             # (if directory m = [] then [] else [MakeDirs (directory m)])"
proof -
  note lock = Lock_enter_on_file [OF inst free]
  from download_after_lock_without_database_member [OF lock resp tar none] inst
  show ?thesis by (simp add: read_file_def)
qed

theorem download_without_database_member_empties_installed_file_witness:
  "stat world_isp_installed (path custom_db) =
     Some ([''data'', ''GeoIP2-ISP.mmdb''], File ''MMDB'')
   \<and> [''data'', ''GeoIP2-ISP.mmdb''] \<notin> locked_elsewhere world_isp_installed
   \<and> server world_isp_installed GEOIP2_DOWNLOAD_URL (download_params custom_db) =
       Response [''DOCS''] False
   \<and> tarfile_open libs0 (concat [''DOCS'']) = Some tar_docs
   \<and> getnames tar_docs = [''docs'', ''docs/README.txt'']
   \<and> \<not> endswith ''docs'' ''.mmdb'' \<and> \<not> endswith ''docs/README.txt'' ''.mmdb''
   \<and> read_file world_isp_installed (path custom_db) = Some ''MMDB''
   \<and> fst (download libs0 custom_db world_isp_installed) = Inl StopIteration
   \<and> read_file (snd (download libs0 custom_db world_isp_installed)) (path custom_db) = Some []
   \<and> events (snd (download libs0 custom_db world_isp_installed)) =
       [HttpGet GEOIP2_DOWNLOAD_URL (download_params custom_db), MakeDirs ''/data'']"
proof -
  have a: "stat world_isp_installed (path custom_db) =
      Some ([''data'', ''GeoIP2-ISP.mmdb''], File ''MMDB'')"
    by (simp add: path_custom_db world_isp_installed_def fs_simps)
  have b: "[''data'', ''GeoIP2-ISP.mmdb''] \<notin> locked_elsewhere world_isp_installed"
    by (simp add: world_isp_installed_def)
  have r: "server world_isp_installed GEOIP2_DOWNLOAD_URL (download_params custom_db) =
      Response [''DOCS''] False"
    by (simp add: world_isp_installed_def server0_def download_params_def custom_db_def)
  have t: "tarfile_open libs0 (concat [''DOCS'']) = Some tar_docs"
    by (simp add: libs0_def)
  have g: "getnames tar_docs = [''docs'', ''docs/README.txt'']"
    by (simp add: tar_docs_def)
  have s: "\<not> endswith ''docs'' ''.mmdb'' \<and> \<not> endswith ''docs/README.txt'' ''.mmdb''"
    by (simp add: endswith_def)
  then have n: "\<forall>n \<in> set (getnames tar_docs). \<not> endswith n ''.mmdb''"
    by (simp add: g)
  have e: "fst (download libs0 custom_db world_isp_installed) = Inl StopIteration"
    by (simp add: world_isp_installed_def fs_simps dl_simps custom_db_def)
  have d: "directory custom_db = ''/data''" and ev: "events world_isp_installed = []"
    by (simp_all add: custom_db_def world_isp_installed_def)
  from download_without_database_member_empties_installed_file [OF a b r t n]
  have "read_file world_isp_installed (path custom_db) = Some ''MMDB''
        \<and> read_file (snd (download libs0 custom_db world_isp_installed)) (path custom_db) = Some []
        \<and> events (snd (download libs0 custom_db world_isp_installed)) =
            [HttpGet GEOIP2_DOWNLOAD_URL (download_params custom_db), MakeDirs ''/data'']"
    by (simp add: d ev)
  with a b r t g s e show ?thesis by simp
qed

text \<open>
  Claim C4: a download has succeeded; the body the endpoint sent decodes to an
  archive; \<open>n\<close> is the first member name of the archive that ends with \<^verbatim>\<open>.mmdb\<close>, and
  the member it names has the bytes \<open>B\<close>. Then the file at \<^verbatim>\<open>path()\<close> holds exactly
  \<open>B\<close>.
\<close>

theorem download_installs_member_bytes:
  assumes ok: "download L m w = (Inr (), w')"
    and resp: "server w GEOIP2_DOWNLOAD_URL (download_params m) = Response chunks broken"
    and tar: "tarfile_open L (concat chunks) = Some tar"
    and first: "List.find (\<lambda>n. endswith n ''.mmdb'') (getnames tar) = Some n"
    and bytes: "extractfile tar n = Some B"
  shows "read_file w' (path m) = Some B"
proof -
  from ok obtain l w1 where lock: "Lock_enter w (path m) ''wb'' = (Inr l, w1)"
    by (auto simp: download_def split: prod.splits sum.splits)
  note dl = download_after_lock [OF lock]
  obtain r w2 where ar: "after_request m w1 = (r, w2)"
    by (cases "after_request m w1")
  from resp dl(3)
  have resp1: "server w1 GEOIP2_DOWNLOAD_URL (download_params m) = Response chunks broken"
    by simp
  from ok have "download_locked L m l w1 = (Inr (), w')"
    unfolding dl(1) .
  then have w': "w' = fwrite w2 l B"
    unfolding download_locked_response [OF dl(2) resp1 ar]
    by (auto simp: tar first bytes extract_file_to_def split: sum.splits if_splits)
  note p = after_request_props [OF ar]
  have s1: "stat w1 (path m) = Some (l, File [])"
    by (rule Lock_enter_wb_stat [OF lock])
  have s2: "stat w2 (path m) = Some (l, File [])"
    using p(1) p(2) s1 by (rule stat_mono)
  then have wk: "walk (fs w2) (cwd w2) (path m) = Some l"
    and nd: "node_at (fs w2) l = Some (File [])"
    by (auto simp: stat_def split: option.splits)
  from nd have ndir: "\<not> is_dir_at (fs w2) l" by (simp add: is_dir_at_def)
  then have l: "l \<noteq> []" by (rule not_dir_not_root)
  with nd have c: "contents w2 l = []" by (simp add: contents_def node_at_def)
  show ?thesis
    unfolding w' using wk l
    by (simp add: read_file_def stat_def fwrite_def c walk_upd_File [OF ndir] node_at_upd_File)
qed

theorem download_installs_member_bytes_witness:
  "fst (download libs0 country_db world0) = Inr ()
   \<and> server world0 GEOIP2_DOWNLOAD_URL (download_params country_db) =
       Response [''TA'', '''', ''R''] False
   \<and> tarfile_open libs0 (concat [''TA'', '''', ''R'']) = Some tar0
   \<and> List.find (\<lambda>n. endswith n ''.mmdb'') (getnames tar0) =
       Some ''GeoLite2-Country_20240101/GeoLite2-Country.mmdb''
   \<and> extractfile tar0 ''GeoLite2-Country_20240101/GeoLite2-Country.mmdb'' = Some ''MMDB''
   \<and> read_file (snd (download libs0 country_db world0)) ''/data/GeoLite2-Country.mmdb'' =
       Some ''MMDB''"
proof -
  have ok: "download libs0 country_db world0 = (Inr (), snd (download libs0 country_db world0))"
    by (simp add: prod_eq_iff download_world0_country)
  have t: "tarfile_open libs0 (concat [''TA'', '''', ''R'']) = Some tar0"
    by (simp add: libs0_def)
  have f: "List.find (\<lambda>n. endswith n ''.mmdb'') (getnames tar0) =
      Some ''GeoLite2-Country_20240101/GeoLite2-Country.mmdb''"
    by (simp add: tar0_def endswith_def)
  have b: "extractfile tar0 ''GeoLite2-Country_20240101/GeoLite2-Country.mmdb'' = Some ''MMDB''"
    by (simp add: tar0_def)
  from download_installs_member_bytes [OF ok response_world0_country t f b]
  have "read_file (snd (download libs0 country_db world0)) ''/data/GeoLite2-Country.mmdb'' =
      Some ''MMDB''"
    by (simp add: path_country_db)
  with download_world0_country response_world0_country t f b show ?thesis
    by simp
qed

text \<open>
  The size check of the block, on its own: entered in a world where the file at
  \<^verbatim>\<open>path()\<close> has a non-zero size, the block returns at once and leaves the world as
  it is (no request, no write). This is the branch the comment in the source
  describes.
\<close>

theorem download_locked_returns_on_nonempty_file:
  "getsize w (path m) = Inr n \<Longrightarrow> n \<noteq> 0 \<Longrightarrow> download_locked L m l w = (Inr (), w)"
  by (simp add: download_locked_def)

theorem download_locked_returns_on_nonempty_file_witness:
  "getsize world_installed (path country_db) = Inr 4
   \<and> download_locked libs0 country_db [''data'', ''GeoLite2-Country.mmdb''] world_installed =
       (Inr (), world_installed)"
proof -
  have a: "getsize world_installed (path country_db) = Inr 4"
    by (simp add: path_country_db world_installed_def fs_simps)
  have b: "(4::nat) \<noteq> 0" by simp
  from a download_locked_returns_on_nonempty_file [OF a b, of libs0]
  show ?thesis by simp
qed

text \<open>
  Claim C1 says that \<^verbatim>\<open>download()\<close> on an already installed, non-empty database file
  returns without a request and without a write. The code opens the lock with
  \<^verbatim>\<open>mode='wb'\<close>, which empties the file as soon as the lock is held, so the size check
  that follows always reads zero. Whatever regular file is at \<^verbatim>\<open>path()\<close>, and unless
  another process holds its lock, the request is sent; and when the connection fails
  the installed bytes are gone and the file is left empty.
\<close>

theorem download_requests_even_when_installed:
  assumes "stat w (path m) = Some (l, File b)" and "l \<notin> locked_elsewhere w"
  shows "(\<exists>rest. events (snd (download L m w)) =
            events w @ HttpGet GEOIP2_DOWNLOAD_URL (download_params m) # rest)
       \<and> (server w GEOIP2_DOWNLOAD_URL (download_params m) = ConnectionFailed \<longrightarrow>
            fst (download L m w) = Inl RequestException
            \<and> read_file (snd (download L m w)) (path m) = Some [])"
proof -
  from assms(1) have wk: "walk (fs w) (cwd w) (path m) = Some l"
    and nd: "node_at (fs w) l = Some (File b)"
    by (auto simp: stat_def split: option.splits)
  then have "open_append w (path m) = (Inr l, w)"
    by (simp add: open_append_def)
  with assms(2) have lock: "Lock_enter w (path m) ''wb'' = (Inr l, ftruncate w l)"
    by (simp add: Lock_enter_def)
  note dl = download_after_lock [OF lock]
  let ?w1 = "ftruncate w l"
  let ?req = "HttpGet GEOIP2_DOWNLOAD_URL (download_params m)"
  show ?thesis
  proof (cases "server w GEOIP2_DOWNLOAD_URL (download_params m)")
    case ConnectionFailed
    with dl have d: "download L m w = (Inl RequestException, log ?req ?w1)"
      by (simp add: download_locked_def requests_get_def)
    have "stat (log ?req ?w1) (path m) = stat ?w1 (path m)"
      by simp
    with Lock_enter_wb_stat [OF lock] have "read_file (log ?req ?w1) (path m) = Some []"
      by (simp add: read_file_def)
    with d dl(4) ConnectionFailed show ?thesis by simp
  next
    case (Response chunks broken)
    with dl(3)
    have resp1: "server ?w1 GEOIP2_DOWNLOAD_URL (download_params m) = Response chunks broken"
      by simp
    obtain r w2 where ar: "after_request m ?w1 = (r, w2)"
      by (cases "after_request m ?w1")
    note p = after_request_props [OF ar]
    have "snd (download L m w) = w2 \<or> (\<exists>B. snd (download L m w) = fwrite w2 l B)"
      unfolding dl(1) download_locked_response [OF dl(2) resp1 ar]
      by (auto simp: extract_file_to_def split: sum.splits option.splits)
    then have "\<exists>rest. events (snd (download L m w)) = events w2 @ rest"
      by (auto simp: fwrite_def)
    with p(3) dl(4) Response show ?thesis by auto
  qed
qed

theorem download_requests_even_when_installed_witness:
  "stat world_installed (path country_db) =
     Some ([''data'', ''GeoLite2-Country.mmdb''], File ''MMDB'')
   \<and> [''data'', ''GeoLite2-Country.mmdb''] \<notin> locked_elsewhere world_installed
   \<and> getsize world_installed (path country_db) = Inr 4
   \<and> fst (download libs0 country_db world_installed) = Inr ()
   \<and> events (snd (download libs0 country_db world_installed)) =
       [HttpGet GEOIP2_DOWNLOAD_URL (download_params country_db),
        MakeDirs ''/data'',
        Write [''data'', ''GeoLite2-Country.mmdb''] ''MMDB'']"
proof -
  have a: "stat world_installed (path country_db) =
      Some ([''data'', ''GeoLite2-Country.mmdb''], File ''MMDB'')"
    by (simp add: path_country_db world_installed_def fs_simps)
  have b: "[''data'', ''GeoLite2-Country.mmdb''] \<notin> locked_elsewhere world_installed"
    by (simp add: world_installed_def)
  have c: "getsize world_installed (path country_db) = Inr 4"
    by (simp add: getsize_def a)
  have d: "fst (download libs0 country_db world_installed) = Inr ()"
    by (simp add: world_installed_def fs_simps dl_simps country_db_def)
  have e: "events (snd (download libs0 country_db world_installed)) =
       [HttpGet GEOIP2_DOWNLOAD_URL (download_params country_db),
        MakeDirs ''/data'',
        Write [''data'', ''GeoLite2-Country.mmdb''] ''MMDB'']"
    by (simp add: world_installed_def fs_simps dl_simps country_db_def)
  from download_requests_even_when_installed [OF a b, of libs0] a b c d e
  show ?thesis by simp
qed

subsection \<open>The reader\<close>

lemma Reader_open_not_DatabaseNotExists: "fst (Reader_open L w p) \<noteq> Inl (DatabaseNotExists s)"
  by (simp add: Reader_open_def split: option.splits prod.splits node.splits)

text \<open>
  Claim C6: accessing \<^verbatim>\<open>reader\<close> raises \<^verbatim>\<open>DatabaseNotExists\<close> if and only if no reader
  is cached and the path resolves to no entry of the file system; the message of the
  error is then the text that names the edition and the resolved path.
\<close>

theorem reader_raises_not_exists_iff:
  "(\<forall>s. (fst (reader L m w) = Inl (DatabaseNotExists s)) =
         (priv_reader m = None \<and> stat w (path m) = None \<and> s = not_exists_message m))
   \<and> not_exists_message m = ''Database '' @ edition_id m @ '' not exists in '' @ path m @ ''.''"
proof (intro conjI allI)
  fix s
  show "(fst (reader L m w) = Inl (DatabaseNotExists s)) =
        (priv_reader m = None \<and> stat w (path m) = None \<and> s = not_exists_message m)"
  proof (cases "priv_reader m = None \<and> stat w (path m) = None")
    case True
    then show ?thesis by (auto simp: reader_def exists_def lexists_def)
  next
    case False
    have "fst (reader L m w) \<noteq> Inl (DatabaseNotExists s)"
    proof (cases "priv_reader m")
      case None
      with False have "reader L m w =
          (case Reader_open L w (path m) of
             (Inl e, w1) \<Rightarrow> (Inl e, m, w1)
           | (Inr r, w1) \<Rightarrow> (Inr r, m\<lparr>priv_reader := Some r\<rparr>, w1))"
        by (simp add: reader_def exists_def lexists_def)
      with Reader_open_not_DatabaseNotExists [of L w "path m" s] show ?thesis
        by (auto split: prod.splits sum.splits)
    next
      case (Some r)
      then show ?thesis by (simp add: reader_def)
    qed
    with False show ?thesis by blast
  qed
next
  show "not_exists_message m = ''Database '' @ edition_id m @ '' not exists in '' @ path m @ ''.''"
    by (simp add: not_exists_message_def)
qed

theorem reader_raises_not_exists_iff_witness:
  "priv_reader country_db = None \<and> stat world0 (path country_db) = None
   \<and> fst (reader libs0 country_db world0) =
       Inl (DatabaseNotExists
         ''Database GeoLite2-Country not exists in /data/GeoLite2-Country.mmdb.'')"
proof -
  have a: "priv_reader country_db = None"
    by (simp add: country_db_def)
  have b: "stat world0 (path country_db) = None"
    by (simp add: path_country_db world0_def fs_simps)
  have c: "not_exists_message country_db =
      ''Database GeoLite2-Country not exists in /data/GeoLite2-Country.mmdb.''"
    by (simp add: not_exists_message_def path_country_db) (simp add: country_db_def)
  from reader_raises_not_exists_iff [of libs0 country_db world0] a b c
  show ?thesis by simp
qed

text \<open>
  Claim C7: once an access of \<^verbatim>\<open>reader\<close> has returned a reader object, every later
  access returns that same object (the same identity, path and bytes), in whatever
  world it is made and with whatever libraries: the file may have changed or be gone.
  The later access leaves the instance and the world as they are, so it opens nothing
  and consults nothing.
\<close>

theorem reader_returns_cached_instance:
  "reader L m w = (Inr r, m1, w1) \<Longrightarrow> reader L' m1 w2 = (Inr r, m1, w2)"
proof -
  assume a: "reader L m w = (Inr r, m1, w1)"
  then have "priv_reader m1 = Some r"
    by (auto simp: reader_def split: if_splits option.splits prod.splits sum.splits)
  then show ?thesis by (simp add: reader_def)
qed

theorem reader_returns_cached_instance_witness:
  "reader libs0 country_db world_installed =
     (Inr \<lparr>reader_id = 0, reader_path = ''/data/GeoLite2-Country.mmdb'', reader_data = ''MMDB''\<rparr>,
      country_db\<lparr>priv_reader :=
        Some \<lparr>reader_id = 0, reader_path = ''/data/GeoLite2-Country.mmdb'',
              reader_data = ''MMDB''\<rparr>\<rparr>,
      log (OpenReader ''/data/GeoLite2-Country.mmdb'') (world_installed\<lparr>next_reader_id := 1\<rparr>))
   \<and> \<not> exists country_db world0
   \<and> reader libs0
       (country_db\<lparr>priv_reader :=
          Some \<lparr>reader_id = 0, reader_path = ''/data/GeoLite2-Country.mmdb'',
                reader_data = ''MMDB''\<rparr>\<rparr>)
       world0 =
     (Inr \<lparr>reader_id = 0, reader_path = ''/data/GeoLite2-Country.mmdb'', reader_data = ''MMDB''\<rparr>,
      country_db\<lparr>priv_reader :=
        Some \<lparr>reader_id = 0, reader_path = ''/data/GeoLite2-Country.mmdb'',
              reader_data = ''MMDB''\<rparr>\<rparr>,
      world0)"
proof -
  have s: "stat world_installed ''/data/GeoLite2-Country.mmdb'' =
      Some ([''data'', ''GeoLite2-Country.mmdb''], File ''MMDB'')"
    by (simp add: world_installed_def fs_simps)
  have ro: "Reader_open libs0 world_installed ''/data/GeoLite2-Country.mmdb'' =
     (Inr \<lparr>reader_id = 0, reader_path = ''/data/GeoLite2-Country.mmdb'', reader_data = ''MMDB''\<rparr>,
      log (OpenReader ''/data/GeoLite2-Country.mmdb'') (world_installed\<lparr>next_reader_id := 1\<rparr>))"
    by (simp add: Reader_open_def s libs0_def) (simp add: world_installed_def)
  have pr: "priv_reader country_db = None"
    by (simp add: country_db_def)
  have a: "reader libs0 country_db world_installed =
     (Inr \<lparr>reader_id = 0, reader_path = ''/data/GeoLite2-Country.mmdb'', reader_data = ''MMDB''\<rparr>,
      country_db\<lparr>priv_reader :=
        Some \<lparr>reader_id = 0, reader_path = ''/data/GeoLite2-Country.mmdb'',
              reader_data = ''MMDB''\<rparr>\<rparr>,
      log (OpenReader ''/data/GeoLite2-Country.mmdb'') (world_installed\<lparr>next_reader_id := 1\<rparr>))"
    by (simp add: reader_def exists_def lexists_def path_country_db s ro pr)
  have b: "\<not> exists country_db world0"
    by (simp add: exists_def path_country_db world0_def fs_simps)
  from reader_returns_cached_instance [OF a, of libs0 world0] a b
  show ?thesis by simp
qed

end
